theory Spec2Isabelle
  imports Complex_Main
begin

section \<open>Python strings\<close>

text \<open>
  Texts are \<open>string\<close>s; one \<open>char\<close> stands for one code point of a Python \<open>str\<close>,
  so \<open>length\<close> is Python's \<open>len\<close> for texts whose code points lie below 256.
  \<open>isspace\<close> is \<open>str.isspace\<close> on that range, \<open>strip\<close> is \<open>str.strip()\<close> with no
  argument, \<open>slice xs i j\<close> is \<open>xs[i:j]\<close> and \<open>rfind s c i j\<close> is \<open>s.rfind(c, i, j)\<close> for a
  one-character needle, both with Python's treatment of negative and oversized bounds.
  \<open>lower\<close> is \<open>str.lower()\<close> and \<open>str_nat\<close> the decimal rendering of a number in an
  f-string. Similarity scores are idealised as \<open>real\<close>.
\<close>

definition isspace :: "char \<Rightarrow> bool" where
  "isspace c = (let n = (of_char c :: nat) in
     (9 \<le> n \<and> n \<le> 13) \<or> (28 \<le> n \<and> n \<le> 32) \<or> n = 133 \<or> n = 160)"

definition strip :: "string \<Rightarrow> string" where
  "strip s = rev (dropWhile isspace (rev (dropWhile isspace s)))"

definition py_index :: "nat \<Rightarrow> int \<Rightarrow> nat" where
  "py_index n i = (if i < 0 then nat (max 0 (i + int n)) else min n (nat i))"

definition slice :: "'a list \<Rightarrow> int \<Rightarrow> int \<Rightarrow> 'a list" where
  "slice xs i j = (let lo = py_index (length xs) i; hi = py_index (length xs) j
                   in take (hi - lo) (drop lo xs))"

definition rfind :: "string \<Rightarrow> char \<Rightarrow> int \<Rightarrow> int \<Rightarrow> int" where
  "rfind s c i j = (let lo = py_index (length s) i; hi = py_index (length s) j
     in case filter (\<lambda>k. s ! k = c) (rev [lo..<hi]) of [] \<Rightarrow> - 1 | k # _ \<Rightarrow> int k)"

definition lower_char :: "char \<Rightarrow> char" where
  "lower_char c = (let n = (of_char c :: nat) in
     if (65 \<le> n \<and> n \<le> 90) \<or> (192 \<le> n \<and> n \<le> 222 \<and> n \<noteq> 215) then char_of (n + 32) else c)"

definition lower :: "string \<Rightarrow> string" where
  "lower s = map lower_char s"

fun str_nat :: "nat \<Rightarrow> string" where
  "str_nat n = (if n < 10 then [char_of (48 + n)] else str_nat (n div 10) @ [char_of (48 + n mod 10)])"

definition py_or :: "int option \<Rightarrow> int \<Rightarrow> int" where
  "py_or x d = (case x of None \<Rightarrow> d | Some n \<Rightarrow> if n = 0 then d else n)"

section \<open>Python floats\<close>

text \<open>
  The weights of the hybrid search endpoint are Python floats, IEEE 754 doubles. A finite
  double is the rational number it denotes. \<open>double_round\<close> rounds a rational to the nearest
  number with a significand of 53 bits, ties to the even significand; \<open>double_add\<close> and
  \<open>double_sub\<close> are \<open>+\<close> and \<open>-\<close> on doubles. \<open>abs\<close> and the comparisons are exact on
  doubles, and a decimal literal such as \<open>0.01\<close> is the double nearest to it. Overflow does
  not occur on the weights the endpoint admits (between 0 and 1), and sums and differences
  of doubles below the normal range are exact, so the exponent range is left unbounded.
\<close>

function bit_length :: "int \<Rightarrow> int" where
  "bit_length n = (if n \<le> 0 then 0 else 1 + bit_length (n div 2))"
  by pat_completeness auto
termination
  by (relation "measure nat") auto

definition binary_exponent :: "rat \<Rightarrow> int" where
  "binary_exponent x =
     (let (p, q) = quotient_of \<bar>x\<bar>;
          e = bit_length p - bit_length q
      in if \<bar>x\<bar> < 2 powi e then e - 1 else e)"

definition round_half_even :: "rat \<Rightarrow> int" where
  "round_half_even q =
     (let n = \<lfloor>q\<rfloor>; r = q - of_int n
      in if r < 1 / 2 then n else if 1 / 2 < r then n + 1 else if even n then n else n + 1)"

definition double_round :: "rat \<Rightarrow> rat" where
  "double_round x =
     (if x = 0 then 0
      else
        let ulp = 2 powi (binary_exponent x - 52)
        in sgn x * of_int (round_half_even (\<bar>x\<bar> / ulp)) * ulp)"

definition double_add :: "rat \<Rightarrow> rat \<Rightarrow> rat" where
  "double_add x y = double_round (x + y)"

definition double_sub :: "rat \<Rightarrow> rat \<Rightarrow> rat" where
  "double_sub x y = double_round (x - y)"

section \<open>Chunker: create_document_chunks\<close>

text \<open>
  \<open>window_end\<close> is the computation of \<open>end\<close> in one pass of the loop of
  create_document_chunks (tasks/document_processing.py, lines 217-227): the right edge
  \<open>start + chunk_size\<close>, moved back to just after the last space or newline of the window
  when the edge lies inside the text and such a character exists after \<open>start\<close>.
  \<open>chunk_loop\<close> is the \<open>while start < len(text)\<close> loop with its two variables \<open>start\<close>
  and \<open>chunks\<close>; it is a partial function, and the value \<open>None\<close> means that the loop
  never leaves. None of the operations in the body raises, so the \<open>except\<close> branch of the
  source is not taken.
\<close>

definition window_end :: "string \<Rightarrow> int \<Rightarrow> int \<Rightarrow> int" where
  "window_end text chunk_size start =
     (let end = start + chunk_size in
      if end < int (length text) then
        let last_space = rfind text (CHR '' '') start end;
            last_newline = rfind text (CHR 0x0A) start end;
            break_point = max last_space last_newline
        in if break_point > start then break_point + 1 else end
      else end)"

partial_function (option) chunk_loop ::
  "string \<Rightarrow> int \<Rightarrow> int \<Rightarrow> int \<Rightarrow> string list \<Rightarrow> string list option" where
  "chunk_loop text chunk_size overlap start chunks =
     (if start < int (length text) then
        let end = window_end text chunk_size start;
            chunk = strip (slice text start end);
            chunks' = (if chunk \<noteq> [] then chunks @ [chunk] else chunks);
            start' = end - overlap
        in chunk_loop text chunk_size overlap (if start' \<le> 0 then end else start') chunks'
      else Some chunks)"

definition create_document_chunks :: "string \<Rightarrow> int \<Rightarrow> int \<Rightarrow> string list option" where
  "create_document_chunks text chunk_size overlap =
     (if text = [] then Some [] else chunk_loop text chunk_size overlap 0 [])"

declare chunk_loop.simps [code]


section \<open>Context optimizer: RAGService.optimize_context\<close>

text \<open>
  A search result carries the fields of the schema \<open>SearchResult\<close> that the algorithms
  read or copy; the names of document and domain and the metadata are left out.
  Identifiers (UUIDs) are natural numbers. \<open>optimize_loop\<close> is the \<open>for\<close> loop of
  optimize_context over the sorted list, with \<open>total_length\<close> and \<open>optimized_context\<close> as
  accumulators; \<open>break\<close> ends the recursion. Python's \<open>sorted(..., reverse=True)\<close> is a stable
  sort by descending key, which is \<open>sort_key\<close> on the negated score. The comparison of
  scores and the string operations do not raise, so the \<open>except\<close> branch is not taken.
  \<open>total_content_length\<close> is \<open>sum(len(r.content) for r in results)\<close>, the quantity the
  endpoint reports as \<open>optimized_context_length\<close>.
\<close>

type_synonym uuid = nat

record search_result =
  chunk_id :: uuid
  document_id :: uuid
  content :: string
  chunk_index :: int
  similarity_score :: real

fun optimize_loop :: "int \<Rightarrow> int \<Rightarrow> search_result list \<Rightarrow> search_result list \<Rightarrow> search_result list" where
  "optimize_loop max_context_length total_length optimized_context [] = optimized_context"
| "optimize_loop max_context_length total_length optimized_context (result # sorted_context) =
     (let content_length = int (length (content result)) in
      if total_length + content_length \<le> max_context_length
      then optimize_loop max_context_length (total_length + content_length)
             (optimized_context @ [result]) sorted_context
      else
        let remaining_length = max_context_length - total_length in
        if remaining_length > 100
        then optimized_context @
               [result\<lparr>content := slice (content result) 0 remaining_length @ ''...''\<rparr>]
        else optimized_context)"

definition optimize_context :: "string \<Rightarrow> search_result list \<Rightarrow> int \<Rightarrow> search_result list" where
  "optimize_context query context max_context_length =
     (if context = [] then []
      else optimize_loop max_context_length 0 []
             (sort_key (\<lambda>x. - similarity_score x) context))"

definition total_content_length :: "search_result list \<Rightarrow> int" where
  "total_content_length rs = (\<Sum>r\<leftarrow>rs. int (length (content r)))"

section \<open>Hybrid fusion: SearchService._combine_search_results\<close>

text \<open>
  \<open>combined_dict\<close> of the source is a Python dictionary from chunk id to a dictionary with
  the keys \<open>result\<close>, \<open>semantic_score\<close>, \<open>vector_score\<close> and \<open>combined_score\<close>. It is an
  association list in insertion order: \<open>dict_set\<close> is \<open>d[k] = v\<close> (an existing key keeps its
  place), \<open>map_of\<close> is the lookup. \<open>add_semantic\<close> and \<open>add_vector\<close> are the bodies of the two
  \<open>for\<close> loops, \<open>fused_score\<close> reads the \<open>combined_score\<close> of a chunk id after both loops,
  and \<open>score_in rs cid\<close> is the similarity score of the first result of \<open>rs\<close> with chunk
  id \<open>cid\<close>.
\<close>

record combined_entry =
  result :: search_result
  semantic_score :: real
  vector_score :: real
  combined_score :: real

fun dict_set :: "'k \<Rightarrow> 'v \<Rightarrow> ('k \<times> 'v) list \<Rightarrow> ('k \<times> 'v) list" where
  "dict_set k v [] = [(k, v)]"
| "dict_set k v (p # ps) = (if fst p = k then (k, v) # ps else p # dict_set k v ps)"

definition add_semantic :: "real \<Rightarrow> (uuid \<times> combined_entry) list \<Rightarrow> search_result \<Rightarrow> (uuid \<times> combined_entry) list" where
  "add_semantic semantic_weight d r =
     dict_set (chunk_id r)
       \<lparr>result = r, semantic_score = similarity_score r * semantic_weight, vector_score = 0,
        combined_score = similarity_score r * semantic_weight\<rparr> d"

definition add_vector :: "real \<Rightarrow> (uuid \<times> combined_entry) list \<Rightarrow> search_result \<Rightarrow> (uuid \<times> combined_entry) list" where
  "add_vector vector_weight d r =
     (case map_of d (chunk_id r) of
        Some e \<Rightarrow>
          dict_set (chunk_id r)
            (e\<lparr>vector_score := similarity_score r * vector_weight,
               combined_score := combined_score e + similarity_score r * vector_weight\<rparr>) d
      | None \<Rightarrow>
          dict_set (chunk_id r)
            \<lparr>result = r, semantic_score = 0, vector_score = similarity_score r * vector_weight,
             combined_score = similarity_score r * vector_weight\<rparr> d)"

definition combined_dict :: "search_result list \<Rightarrow> search_result list \<Rightarrow> real \<Rightarrow> real \<Rightarrow> (uuid \<times> combined_entry) list" where
  "combined_dict semantic_results vector_results semantic_weight vector_weight =
     foldl (add_vector vector_weight)
       (foldl (add_semantic semantic_weight) [] semantic_results) vector_results"

definition combine_search_results :: "search_result list \<Rightarrow> search_result list \<Rightarrow> real \<Rightarrow> real \<Rightarrow> int \<Rightarrow> search_result list" where
  "combine_search_results semantic_results vector_results semantic_weight vector_weight limit =
     (let sorted_results = sort_key (\<lambda>x. - combined_score x)
            (map snd (combined_dict semantic_results vector_results semantic_weight vector_weight))
      in map result (slice sorted_results 0 limit))"

definition fused_score :: "search_result list \<Rightarrow> search_result list \<Rightarrow> real \<Rightarrow> real \<Rightarrow> uuid \<Rightarrow> real option" where
  "fused_score semantic_results vector_results semantic_weight vector_weight cid =
     map_option combined_score
       (map_of (combined_dict semantic_results vector_results semantic_weight vector_weight) cid)"

definition score_in :: "search_result list \<Rightarrow> uuid \<Rightarrow> real option" where
  "score_in rs cid = map_option similarity_score (find (\<lambda>r. chunk_id r = cid) rs)"


section \<open>Store\<close>

text \<open>
  The database holds the three tables the pipeline touches. \<open>documents\<close> is keyed by the
  primary key; \<open>document_chunks\<close> and \<open>vector_search_logs\<close> are lists in insertion order
  (neither table has a uniqueness constraint besides its primary key). \<open>next_id\<close> stands for
  the \<open>uuid4\<close> default of a new row. A document has the columns of class \<open>Document\<close> that
  the tasks read. The column \<open>document_metadata\<close> of a chunk is \<open>dc_document_metadata\<close>.
  Statements of the store are taken to succeed, and wall-clock response times are left out
  of logs and responses. \<open>AttributeError a\<close> is the exception of reading an attribute \<open>a\<close>
  that the object does not have.
\<close>

datatype py_exception = AttributeError string

record document =
  doc_domain_id :: uuid
  filename :: string
  file_path :: string
  file_type :: string
  status :: string

record document_chunk =
  dc_id :: uuid
  dc_document_id :: uuid
  dc_chunk_index :: int
  dc_content :: string
  dc_document_metadata :: "(string \<times> int) list option"

record vector_search_log =
  log_query :: string
  results_count :: nat
  log_search_type :: string
  log_domain_id :: "uuid option"
  log_error :: "py_exception option"

record database =
  documents :: "uuid \<rightharpoonup> document"
  document_chunks :: "document_chunk list"
  vector_search_logs :: "vector_search_log list"
  next_id :: uuid

record settings =
  CHUNK_SIZE :: int
  CHUNK_OVERLAP :: int
  VECTOR_DIMENSION :: int

definition default_settings :: settings where
  "default_settings = \<lparr>CHUNK_SIZE = 1000, CHUNK_OVERLAP = 200, VECTOR_DIMENSION = 1536\<rparr>"

section \<open>Search service and the hybrid search endpoint\<close>

text \<open>
  \<open>ilike\<close> is the store's \<open>ILIKE\<close> match of a chunk's content against \<open>%query%\<close>, taken
  as a parameter. \<open>semantic_search\<close> first builds its query; \<open>document_domain_loader\<close> is the
  evaluation of \<open>selectinload(DocumentChunk.document.domain)\<close> there: the relationship
  attribute \<open>DocumentChunk.document\<close> has no attribute \<open>domain\<close>, so it raises
  \<open>AttributeError\<close> before the store is asked, and the \<open>except\<close> branch logs the failed search
  and raises again. \<open>hybrid_search\<close> is \<open>SearchService.hybrid_search\<close>, whose \<open>except\<close> branch
  logs a failed hybrid search and raises again. The value of a service method is the
  exception it raises or its response, with the database it leaves behind.

  \<open>hybrid_search_endpoint\<close> is the handler of \<open>POST /hybrid\<close> in api/v1/endpoints/search.py
  together with the bounds its \<open>Query\<close> parameters declare (\<open>ge\<close>, \<open>le\<close>), which the framework
  checks before the handler runs and answers with \<open>RequestValidationError\<close> (HTTP 422). Its
  value is the response, or the \<open>HTTPException\<close> raised: the handler's own 400, or the 500
  into which it turns every other exception.
\<close>

record search_response =
  sr_query :: string
  results :: "search_result list"
  total_results :: nat

datatype http_error = RequestValidationError | HTTPException nat string

definition log_search ::
  "database \<Rightarrow> string \<Rightarrow> nat \<Rightarrow> string \<Rightarrow> uuid option \<Rightarrow> py_exception option \<Rightarrow> database" where
  "log_search db query n search_type domain_id error =
     db\<lparr>vector_search_logs := vector_search_logs db @
          [\<lparr>log_query = query, results_count = n, log_search_type = search_type,
            log_domain_id = domain_id, log_error = error\<rparr>]\<rparr>"

definition in_domain :: "database \<Rightarrow> uuid option \<Rightarrow> document_chunk \<Rightarrow> bool" where
  "in_domain db domain_id c =
     (case domain_id of
        None \<Rightarrow> True
      | Some wanted \<Rightarrow>
          (case documents db (dc_document_id c) of
             None \<Rightarrow> False
           | Some d \<Rightarrow> doc_domain_id d = wanted))"

definition document_domain_loader :: "py_exception + unit" where
  "document_domain_loader = Inl (AttributeError ''domain'')"

definition semantic_search ::
  "(string \<Rightarrow> string \<Rightarrow> bool) \<Rightarrow> database \<Rightarrow> string \<Rightarrow> uuid option \<Rightarrow> int
     \<Rightarrow> (py_exception + search_response) \<times> database" where
  "semantic_search ilike db query domain_id limit =
     (case document_domain_loader of
        Inl e \<Rightarrow> (Inl e, log_search db query 0 ''semantic'' domain_id (Some e))
      | Inr _ \<Rightarrow>
          let chunks = take (nat limit)
                (filter (\<lambda>c. in_domain db domain_id c \<and> ilike (dc_content c) query)
                   (document_chunks db));
              search_results = map (\<lambda>chunk.
                \<lparr>chunk_id = dc_id chunk, document_id = dc_document_id chunk,
                 content = dc_content chunk, chunk_index = dc_chunk_index chunk,
                 similarity_score = 8 / 10\<rparr>) chunks
          in (Inr \<lparr>sr_query = query, results = search_results,
                   total_results = length search_results\<rparr>,
              log_search db query (length search_results) ''semantic'' domain_id None))"

definition vector_search ::
  "database \<Rightarrow> string \<Rightarrow> uuid option \<Rightarrow> int \<Rightarrow> search_response \<times> database" where
  "vector_search db query domain_id limit =
     (let search_results = [] in
      (\<lparr>sr_query = query, results = search_results, total_results = length search_results\<rparr>,
       log_search db query (length search_results) ''vector'' domain_id None))"

definition hybrid_search ::
  "(string \<Rightarrow> string \<Rightarrow> bool) \<Rightarrow> database \<Rightarrow> string \<Rightarrow> uuid option \<Rightarrow> int \<Rightarrow> real \<Rightarrow> real
     \<Rightarrow> (py_exception + search_response) \<times> database" where
  "hybrid_search ilike db query domain_id limit semantic_weight vector_weight =
     (case semantic_search ilike db query domain_id limit of
        (Inl e, db1) \<Rightarrow> (Inl e, log_search db1 query 0 ''hybrid'' domain_id (Some e))
      | (Inr semantic_results, db1) \<Rightarrow>
          let (vector_results, db2) = vector_search db1 query domain_id limit;
              combined_results = combine_search_results (results semantic_results)
                (results vector_results) semantic_weight vector_weight limit
          in (Inr \<lparr>sr_query = query, results = combined_results,
                   total_results = length combined_results\<rparr>,
              log_search db2 query (length combined_results) ''hybrid'' domain_id None))"

definition hybrid_search_endpoint ::
  "(string \<Rightarrow> string \<Rightarrow> bool) \<Rightarrow> database \<Rightarrow> string \<Rightarrow> uuid option \<Rightarrow> int \<Rightarrow> rat \<Rightarrow> rat
     \<Rightarrow> (http_error + search_response) \<times> database" where
  "hybrid_search_endpoint ilike db query domain_id limit semantic_weight vector_weight =
     (if \<not> (1 \<le> limit \<and> limit \<le> 100 \<and> 0 \<le> semantic_weight \<and> semantic_weight \<le> 1 \<and>
             0 \<le> vector_weight \<and> vector_weight \<le> 1)
      then (Inl RequestValidationError, db)
      else if \<bar>double_sub (double_add semantic_weight vector_weight) 1\<bar> > double_round (1 / 100)
      then (Inl (HTTPException 400 ''Semantic and vector weights must sum to 1.0''), db)
      else
        (case hybrid_search ilike db query domain_id limit
                (of_rat semantic_weight) (of_rat vector_weight) of
           (Inl e, db') \<Rightarrow> (Inl (HTTPException 500 ''Search failed''), db')
         | (Inr response, db') \<Rightarrow> (Inr response, db')))"

section \<open>Ingestion: process_document and chunk_document\<close>

text \<open>
  A file of the raw storage either reads as text or makes \<open>open\<close>/\<open>read\<close> raise (wrong
  encoding, unreadable); a path with no file does not exist. The extractors are those of
  tasks/document_processing.py: the text extractor turns every exception into the empty
  string, the PDF and DOCX extractors return a placeholder and never raise.

  \<open>process_document\<close> and \<open>chunk_document\<close> are the bodies of the two tasks for a document id
  that parsed as a UUID. \<open>document_chunk_size\<close> is the read of \<open>document.chunk_size\<close> in
  process_document: class \<open>Document\<close> has no such attribute, so the read raises
  \<open>AttributeError\<close>, and the \<open>except\<close> branch sets the status \<open>failed\<close> and raises again. The
  value of process_document is the exception the task ends with, if any, and the database it
  leaves behind; the value of chunk_document is the database it leaves behind. Either is
  \<open>None\<close> when the chunking loop does not return. \<open>create_document_chunk\<close> passes its
  metadata as \<open>DocumentChunk(metadata=...)\<close>, which sets a plain attribute of the object and
  leaves the column \<open>document_metadata\<close> empty. \<open>run_task\<close> runs one ingestion attempt, by
  either task, and gives the database it leaves behind.
\<close>

datatype raw_file = Readable string | Unreadable

type_synonym storage = "string \<rightharpoonup> raw_file"

definition extract_text_from_txt :: "storage \<Rightarrow> string \<Rightarrow> string" where
  "extract_text_from_txt fs path =
     (case fs path of Some (Readable s) \<Rightarrow> s | Some Unreadable \<Rightarrow> [] | None \<Rightarrow> [])"

definition extract_text_from_pdf :: "storage \<Rightarrow> string \<Rightarrow> string" where
  "extract_text_from_pdf fs path = ''PDF content placeholder for '' @ path"

definition extract_text_from_docx :: "storage \<Rightarrow> string \<Rightarrow> string" where
  "extract_text_from_docx fs path = ''DOCX content placeholder for '' @ path"

definition extract_text_from_document :: "storage \<Rightarrow> document \<Rightarrow> string option" where
  "extract_text_from_document fs document =
     (if fs (file_path document) = None then None
      else
        let ft = lower (file_type document) in
        if ft = ''txt'' then Some (extract_text_from_txt fs (file_path document))
        else if ft = ''pdf'' then Some (extract_text_from_pdf fs (file_path document))
        else if ft = ''docx'' \<or> ft = ''doc'' then Some (extract_text_from_docx fs (file_path document))
        else None)"

definition get_document :: "database \<Rightarrow> uuid \<Rightarrow> document option" where
  "get_document db doc_id = documents db doc_id"

definition update_document_status :: "database \<Rightarrow> uuid \<Rightarrow> string \<Rightarrow> database" where
  "update_document_status db doc_id new_status =
     (case get_document db doc_id of
        None \<Rightarrow> db
      | Some document \<Rightarrow>
          db\<lparr>documents := (documents db)(doc_id \<mapsto> document\<lparr>status := new_status\<rparr>)\<rparr>)"

definition get_document_chunks :: "database \<Rightarrow> uuid \<Rightarrow> document_chunk list" where
  "get_document_chunks db doc_id =
     sort_key dc_chunk_index (filter (\<lambda>c. dc_document_id c = doc_id) (document_chunks db))"

definition create_document_chunk ::
  "database \<Rightarrow> uuid \<Rightarrow> int \<Rightarrow> string \<Rightarrow> (string \<times> int) list \<Rightarrow> database" where
  "create_document_chunk db doc_id idx text metadata =
     db\<lparr>document_chunks := document_chunks db @
          [\<lparr>dc_id = next_id db, dc_document_id = doc_id, dc_chunk_index = idx,
            dc_content = text, dc_document_metadata = None\<rparr>],
        next_id := Suc (next_id db)\<rparr>"

fun save_chunks ::
  "(string \<Rightarrow> (string \<times> int) list) \<Rightarrow> database \<Rightarrow> uuid \<Rightarrow> int \<Rightarrow> string list \<Rightarrow> database" where
  "save_chunks metadata db doc_id i [] = db"
| "save_chunks metadata db doc_id i (chunk_text # chunks) =
     save_chunks metadata
       (create_document_chunk db doc_id i chunk_text (metadata chunk_text))
       doc_id (i + 1) chunks"

definition document_chunk_size :: "document \<Rightarrow> py_exception + int option" where
  "document_chunk_size document = Inl (AttributeError ''chunk_size'')"

definition process_document ::
  "settings \<Rightarrow> storage \<Rightarrow> database \<Rightarrow> uuid \<Rightarrow> (py_exception option \<times> database) option" where
  "process_document st fs db doc_id =
     (case get_document db doc_id of
        None \<Rightarrow> Some (None, db)
      | Some document \<Rightarrow>
          let db1 = update_document_status db doc_id ''processing'' in
          (case extract_text_from_document fs document of
             None \<Rightarrow> Some (None, update_document_status db1 doc_id ''failed'')
           | Some text_content \<Rightarrow>
               if text_content = [] then Some (None, update_document_status db1 doc_id ''failed'')
               else
                 (case document_chunk_size document of
                    Inl e \<Rightarrow> Some (Some e, update_document_status db1 doc_id ''failed'')
                  | Inr chunk_size \<Rightarrow>
                      (case create_document_chunks text_content
                              (py_or chunk_size (CHUNK_SIZE st)) 0 of
                         None \<Rightarrow> None
                       | Some chunks \<Rightarrow>
                           Some (None, update_document_status
                             (save_chunks (\<lambda>chunk_text. [(''chunk_size'', int (length chunk_text))])
                                db1 doc_id 0 chunks)
                             doc_id ''completed'')))))"

definition chunk_document ::
  "settings \<Rightarrow> storage \<Rightarrow> database \<Rightarrow> uuid \<Rightarrow> int option \<Rightarrow> int option \<Rightarrow> database option" where
  "chunk_document st fs db doc_id chunk_size overlap =
     (let chunk_size = py_or chunk_size (CHUNK_SIZE st);
          overlap = py_or overlap (CHUNK_OVERLAP st)
      in
      case get_document db doc_id of
        None \<Rightarrow> Some db
      | Some document \<Rightarrow>
          if get_document_chunks db doc_id \<noteq> [] then Some db
          else
            (case extract_text_from_document fs document of
               None \<Rightarrow> Some db
             | Some text_content \<Rightarrow>
                 if text_content = [] then Some db
                 else
                   (case create_document_chunks text_content chunk_size overlap of
                      None \<Rightarrow> None
                    | Some chunks \<Rightarrow>
                        Some (save_chunks
                          (\<lambda>chunk_text. [(''chunk_size'', int (length chunk_text)), (''overlap'', overlap)])
                          db doc_id 0 chunks))))"

datatype ingestion_task = ProcessDocument | ChunkDocument "int option" "int option"

fun run_task ::
  "settings \<Rightarrow> storage \<Rightarrow> uuid \<Rightarrow> ingestion_task \<Rightarrow> database \<Rightarrow> database option" where
  "run_task st fs doc_id ProcessDocument db = map_option snd (process_document st fs db doc_id)"
| "run_task st fs doc_id (ChunkDocument chunk_size overlap) db =
     chunk_document st fs db doc_id chunk_size overlap"

section \<open>Placeholder embedding: create_embedding\<close>

text \<open>
  \<open>md5_hexdigest\<close> is \<open>hashlib.md5(text.encode()).hexdigest()\<close>, taken as a parameter; the
  logger is a list of records, so that two calls in a row can be compared. \<open>assign\<close> is the
  \<open>for\<close> loop that overwrites the leading entries of the placeholder; an index outside the
  list raises \<open>IndexError\<close>, which the \<open>except\<close> branch turns into \<open>None\<close>.
\<close>

datatype log_record = INFO string | ERROR string

fun assign :: "(nat \<times> char) list \<Rightarrow> real list \<Rightarrow> real list option" where
  "assign [] placeholder_embedding = Some placeholder_embedding"
| "assign ((i, c) # rest) placeholder_embedding =
     (if i < length placeholder_embedding
      then assign rest
             (placeholder_embedding[i := (real_of_int (int (of_char c) - int (of_char (CHR ''a'')))) / 26])
      else None)"

definition create_embedding ::
  "(string \<Rightarrow> string) \<Rightarrow> settings \<Rightarrow> log_record list \<Rightarrow> string \<Rightarrow> real list option \<times> log_record list" where
  "create_embedding md5_hexdigest st logger text =
     (if text = [] then (None, logger)
      else
        let embedding_dimension = VECTOR_DIMENSION st;
            placeholder_embedding = replicate (nat embedding_dimension) 0;
            text_hash = md5_hexdigest text;
            prefix = slice text_hash 0 (min (int (length text_hash)) embedding_dimension)
        in case assign (enumerate 0 prefix) placeholder_embedding of
             Some embedding \<Rightarrow>
               (Some embedding,
                logger @ [INFO (''Generated placeholder embedding for text of length '' @
                                 str_nat (length text))])
           | None \<Rightarrow>
               (None, logger @ [ERROR ''Error creating embedding: list assignment index out of range'']))"


section \<open>Example data\<close>

text \<open>
  A store with one indexed chunk for the search examples, and a raw storage with a text
  file, a picture and an unreadable text file, with one pending document for each, for the
  ingestion examples.
\<close>

definition example_db :: database where
  "example_db =
     \<lparr>documents = [7 \<mapsto> \<lparr>doc_domain_id = 1, filename = ''f.txt'', file_path = ''/f.txt'',
                            file_type = ''txt'', status = ''completed''\<rparr>],
      document_chunks = [\<lparr>dc_id = 100, dc_document_id = 7, dc_chunk_index = 0,
                          dc_content = ''fox'', dc_document_metadata = None\<rparr>],
      vector_search_logs = [], next_id = 101\<rparr>"

definition example_storage :: storage where
  "example_storage = [''/f.txt'' \<mapsto> Readable ''hello world'', ''/g.png'' \<mapsto> Readable ''x'',
                      ''/h.txt'' \<mapsto> Unreadable]"

definition example_document :: "string \<Rightarrow> string \<Rightarrow> document" where
  "example_document path ft =
     \<lparr>doc_domain_id = 1, filename = path, file_path = path, file_type = ft,
      status = ''pending''\<rparr>"

definition example_store :: database where
  "example_store =
     \<lparr>documents = [7 \<mapsto> example_document ''/f.txt'' ''txt'', 8 \<mapsto> example_document ''/g.png'' ''PNG'',
                   9 \<mapsto> example_document ''/h.txt'' ''txt''],
      document_chunks = [], vector_search_logs = [], next_id = 100\<rparr>"

section \<open>Properties of the chunker\<close>

lemma strip_ends:
  assumes "strip s \<noteq> []"
  shows "\<not> isspace (hd (strip s)) \<and> \<not> isspace (last (strip s))"
proof -
  define t where "t = dropWhile isspace s"
  define u where "u = dropWhile isspace (rev t)"
  have s: "strip s = rev u" by (simp add: strip_def t_def u_def)
  with assms have u: "u \<noteq> []" by simp
  then have hu: "\<not> isspace (hd u)" unfolding u_def by (rule hd_dropWhile)
  from u have t: "t \<noteq> []" unfolding u_def by auto
  then have ht: "\<not> isspace (hd t)" unfolding t_def by (rule hd_dropWhile)
  have "rev t = takeWhile isspace (rev t) @ u" by (simp add: u_def)
  then have "last (rev t) = last u" using u by (metis last_appendR)
  then have "last u = hd t" using t by (simp add: last_rev)
  then show ?thesis using hu ht u by (simp add: s last_rev hd_rev)
qed

lemma strip_fixed:
  assumes "r = [] \<or> (\<not> isspace (hd r) \<and> \<not> isspace (last r))"
  shows "strip r = r"
proof (cases "r = []")
  case True then show ?thesis by (simp add: strip_def)
next
  case False
  with assms have h: "\<not> isspace (hd r)" and l: "\<not> isspace (last r)" by auto
  from h False have 1: "dropWhile isspace r = r" by (cases r) auto
  from l False have "\<not> isspace (hd (rev r))" by (simp add: hd_rev)
  with False have 2: "dropWhile isspace (rev r) = rev r" by (cases "rev r") auto
  show ?thesis by (simp add: strip_def 1 2)
qed

lemma strip_idem: "strip (strip s) = strip s"
  using strip_ends [of s] by (intro strip_fixed) blast

lemma length_strip: "length (strip s) \<le> length s"
proof -
  have "length (dropWhile isspace (rev (dropWhile isspace s))) \<le> length (rev (dropWhile isspace s))"
    by (rule length_dropWhile_le)
  moreover have "length (dropWhile isspace s) \<le> length s"
    by (rule length_dropWhile_le)
  ultimately show ?thesis by (simp add: strip_def)
qed

lemma length_slice:
  assumes "0 \<le> i" "i \<le> j"
  shows "int (length (slice xs i j)) \<le> j - i"
  using assms by (auto simp: slice_def py_index_def Let_def min_def)

lemma rfind_range:
  "rfind s c i j = - 1 \<or>
   (int (py_index (length s) i) \<le> rfind s c i j \<and> rfind s c i j < int (py_index (length s) j))"
proof (cases "filter (\<lambda>k. s ! k = c) (rev [py_index (length s) i..<py_index (length s) j])")
  case Nil
  then show ?thesis by (simp add: rfind_def)
next
  case (Cons k ks)
  then have "k \<in> set (filter (\<lambda>k. s ! k = c) (rev [py_index (length s) i..<py_index (length s) j]))"
    by simp
  then have "py_index (length s) i \<le> k \<and> k < py_index (length s) j" by simp
  then show ?thesis using Cons by (simp add: rfind_def)
qed

lemma rfind_upper: "0 \<le> j \<Longrightarrow> rfind s c i j < j"
  using rfind_range [of s c i j] by (auto simp: py_index_def split: if_splits)

lemma window_end_upper:
  assumes "0 \<le> start" "0 < chunk_size"
  shows "window_end text chunk_size start \<le> start + chunk_size"
proof -
  have "rfind text c start (start + chunk_size) < start + chunk_size" for c
    using assms by (intro rfind_upper) simp
  then show ?thesis
    using assms by (auto simp: window_end_def Let_def max_def dest: zless_imp_add1_zle) 
qed

lemma window_end_lower:
  assumes "0 < chunk_size"
  shows "start < window_end text chunk_size start"
  using assms by (auto simp: window_end_def Let_def)

lemma window_end_break:
  "window_end text chunk_size start = start + chunk_size \<or>
   start + 2 \<le> window_end text chunk_size start"
  by (auto simp: window_end_def Let_def)



lemma loops_at_1:
  assumes "chunk_loop text cs ov s chunks = Some r"
  shows "text = ''ab cd'' \<Longrightarrow> cs = 3 \<Longrightarrow> ov = 2 \<Longrightarrow> s \<noteq> 1"
proof (induction "text" cs ov s chunks r rule: chunk_loop.raw_induct)
  case (1 loop t cs ov start chunks res)
  show ?case
  proof
    assume s: "start = 1"
    have w: "window_end ''ab cd'' 3 1 = 3" by code_simp
    from "1.hyps" "1.prems" have "loop ''ab cd'' 3 2 1
       (if strip (slice ''ab cd'' 1 3) \<noteq> [] then chunks @ [strip (slice ''ab cd'' 1 3)] else chunks) = Some res"
      unfolding s by (simp add: w Let_def)
    from "1.IH" [OF this] show False by simp
  qed
qed fact

text \<open>
  Claim C2 says that the chunking loop terminates whenever \<open>0 \<le> overlap < maxSize\<close>. On
  the text \<open>ab cd\<close> with \<open>chunk_size = 3\<close> and \<open>overlap = 2\<close> it does not: the first window
  is cut after the space (\<open>end = 3\<close>), \<open>start\<close> becomes \<open>1\<close>, the next window is cut at the same
  space, and \<open>start = end - overlap = 1\<close> again, for ever. The guard \<open>start \<le> 0\<close> only
  forces an advance at the beginning of the text.
\<close>

theorem create_document_chunks_diverges: "create_document_chunks ''ab cd'' 3 2 = None"
proof -
  have a: "chunk_loop ''ab cd'' 3 2 1 cs = None" for cs
    using loops_at_1 [of "''ab cd''" 3 2 1 cs] by (cases "chunk_loop ''ab cd'' 3 2 1 cs") auto
  have w0: "window_end ''ab cd'' 3 0 = 3" by code_simp
  show ?thesis
    unfolding create_document_chunks_def
    by (subst chunk_loop.simps) (simp add: w0 a Let_def)
qed

lemma chunk_loop_preserves:
  assumes "chunk_loop text cs ov s chunks = Some r"
    and "\<forall>c\<in>set chunks. Q c"
    and "\<And>a b. strip (slice text a b) \<noteq> [] \<Longrightarrow> Q (strip (slice text a b))"
  shows "\<forall>c\<in>set r. Q c"
  using assms(2-)
proof (induction "text" cs ov s chunks r rule: chunk_loop.raw_induct)
  case (1 loop t cs ov start chunks res)
  show ?case
  proof (cases "start < int (length t)")
    case False
    with "1.hyps" "1.prems"(1) show ?thesis by simp
  next
    case True
    define e where "e = window_end t cs start"
    define chunks' where "chunks' = (if strip (slice t start e) \<noteq> [] then chunks @ [strip (slice t start e)] else chunks)"
    from "1.hyps" have run: "loop t cs ov (if e - ov \<le> 0 then e else e - ov) chunks' = Some res"
      by (simp only: Let_def e_def chunks'_def True if_True)
    have "\<forall>c\<in>set chunks'. Q c"
      using "1.prems" by (auto simp: chunks'_def)
    from "1.IH" [OF run this "1.prems"(2)] show ?thesis by simp
  qed
qed fact

text \<open>
  Claim C9: every chunk that create_document_chunks returns is non-empty and equal to its
  own \<open>strip()\<close>, so it has no leading or trailing whitespace; a window whose stripped
  slice is empty adds nothing to the list.
\<close>

theorem chunks_nonempty_stripped:
  assumes "create_document_chunks text chunk_size overlap = Some chunks"
  shows "\<forall>c\<in>set chunks. c \<noteq> [] \<and> strip c = c"
proof (cases "text = []")
  case True
  with assms show ?thesis by (simp add: create_document_chunks_def)
next
  case False
  with assms have "chunk_loop text chunk_size overlap 0 [] = Some chunks"
    by (simp add: create_document_chunks_def)
  then show ?thesis
    by (rule chunk_loop_preserves) (simp_all add: strip_idem)
qed

lemma chunk_loop_bounded:
  assumes "chunk_loop text cs ov s chunks = Some r"
    and "0 < cs" and "0 \<le> s"
    and "\<forall>c\<in>set chunks. int (length c) \<le> cs"
  shows "\<forall>c\<in>set r. int (length c) \<le> cs"
  using assms(2-)
proof (induction "text" cs ov s chunks r rule: chunk_loop.raw_induct)
  case (1 loop t cs ov start chunks res)
  show ?case
  proof (cases "start < int (length t)")
    case False
    with "1.hyps" "1.prems" show ?thesis by simp
  next
    case True
    define e where "e = window_end t cs start"
    define chunks' where "chunks' = (if strip (slice t start e) \<noteq> [] then chunks @ [strip (slice t start e)] else chunks)"
    from "1.hyps" have run: "loop t cs ov (if e - ov \<le> 0 then e else e - ov) chunks' = Some res"
      by (simp only: Let_def e_def chunks'_def True if_True)
    have lo: "start < e" unfolding e_def using "1.prems"(1) by (rule window_end_lower)
    have hi: "e \<le> start + cs" unfolding e_def using "1.prems"(2,1) by (rule window_end_upper)
    have "int (length (strip (slice t start e))) \<le> int (length (slice t start e))"
      using length_strip [of "slice t start e"] by simp
    also have "\<dots> \<le> e - start" using "1.prems"(2) lo by (intro length_slice) simp_all
    also have "\<dots> \<le> cs" using hi by simp
    finally have "\<forall>c\<in>set chunks'. int (length c) \<le> cs"
      using "1.prems"(3) by (auto simp: chunks'_def)
    moreover have "0 \<le> (if e - ov \<le> 0 then e else e - ov)" using lo "1.prems"(2) by simp
    ultimately show ?thesis using "1.IH" [OF run "1.prems"(1)] by simp
  qed
qed fact

text \<open>
  Claim C7: for \<open>chunk_size > 0\<close>, every chunk that create_document_chunks returns has at
  most \<open>chunk_size\<close> characters (for every overlap).
\<close>

theorem chunk_length_le_chunk_size:
  assumes "0 < chunk_size" and "create_document_chunks text chunk_size overlap = Some chunks"
  shows "\<forall>c\<in>set chunks. int (length c) \<le> chunk_size"
proof (cases "text = []")
  case True
  with assms show ?thesis by (simp add: create_document_chunks_def)
next
  case False
  with assms have "chunk_loop text chunk_size overlap 0 [] = Some chunks"
    by (simp add: create_document_chunks_def)
  from chunk_loop_bounded [OF this assms(1)] show ?thesis by simp
qed


lemma slice_all: "int (length xs) \<le> j \<Longrightarrow> slice xs 0 j = xs"
  by (simp add: slice_def py_index_def)

lemma window_end_past: "int (length text) \<le> start + chunk_size \<Longrightarrow> window_end text chunk_size start = start + chunk_size"
  by (simp add: window_end_def)

lemma chunk_loop_exit: "int (length text) \<le> start \<Longrightarrow> chunk_loop text cs ov start chunks = Some chunks"
  by (subst chunk_loop.simps) simp

lemma chunk_loop_step:
  assumes "start < int (length text)"
  shows "chunk_loop text cs ov start chunks =
     chunk_loop text cs ov
       (if window_end text cs start - ov \<le> 0 then window_end text cs start
        else window_end text cs start - ov)
       (if strip (slice text start (window_end text cs start)) \<noteq> []
        then chunks @ [strip (slice text start (window_end text cs start))] else chunks)"
  by (subst chunk_loop.simps) (simp only: assms if_True Let_def)

text \<open>
  Claim C6, amended: the empty text gives the empty list; a non-empty text with
  \<open>len(text) \<le> chunk_size - overlap\<close> and \<open>overlap \<ge> 0\<close> gives the single chunk
  \<open>text.strip()\<close> when that is non-empty, and the empty list when the text is whitespace only.
\<close>

theorem short_text_chunks:
  "create_document_chunks [] chunk_size overlap = Some [] \<and>
   (text \<noteq> [] \<and> 0 \<le> overlap \<and> int (length text) + overlap \<le> chunk_size \<longrightarrow>
      create_document_chunks text chunk_size overlap =
        Some (if strip text = [] then [] else [strip text]))"
proof (intro conjI impI)
  show "create_document_chunks [] chunk_size overlap = Some []"
    by (simp add: create_document_chunks_def)
next
  assume a: "text \<noteq> [] \<and> 0 \<le> overlap \<and> int (length text) + overlap \<le> chunk_size"
  then have len: "0 < int (length text)" by simp
  from a have w: "window_end text chunk_size 0 = chunk_size"
    using window_end_past [of "text" 0 chunk_size] by simp
  from a have sl: "slice text 0 chunk_size = text" by (intro slice_all) simp
  from a have b: "int (length text) + overlap \<le> chunk_size" by simp
  from b len have nxt: "\<not> chunk_size - overlap \<le> 0" by linarith
  from b have out: "int (length text) \<le> chunk_size - overlap" by linarith
  have "chunk_loop text chunk_size overlap 0 [] =
        chunk_loop text chunk_size overlap (chunk_size - overlap)
          (if strip text \<noteq> [] then [] @ [strip text] else [])"
    using chunk_loop_step [OF len, of chunk_size overlap "[]"] by (simp only: w sl nxt if_False)
  also have "\<dots> = Some (if strip text \<noteq> [] then [] @ [strip text] else [])"
    using out by (rule chunk_loop_exit)
  finally show "create_document_chunks text chunk_size overlap =
        Some (if strip text = [] then [] else [strip text])"
    using a by (simp add: create_document_chunks_def)
qed

lemma chunk_loop_returns_small_overlap:
  assumes "0 \<le> overlap" "overlap \<le> 1" "overlap < chunk_size"
  shows "0 \<le> start \<Longrightarrow> \<exists>r. chunk_loop text chunk_size overlap start chunks = Some r"
proof (induction "nat (int (length text) - start)" arbitrary: start chunks rule: less_induct)
  case less
  show ?case
  proof (cases "start < int (length text)")
    case False
    then show ?thesis using chunk_loop_exit [of "text" start chunk_size overlap chunks] by simp
  next
    case True
    define e where "e = window_end text chunk_size start"
    define s' where "s' = (if e - overlap \<le> 0 then e else e - overlap)"
    from assms have cs: "0 < chunk_size" by simp
    have lo: "start < e" unfolding e_def using cs by (rule window_end_lower)
    have "e = start + chunk_size \<or> start + 2 \<le> e" unfolding e_def by (rule window_end_break)
    with lo assms have adv: "start < s'" by (auto simp: s'_def)
    with True less.prems have "nat (int (length text) - s') < nat (int (length text) - start)" by simp
    moreover from adv less.prems have "0 \<le> s'" by simp
    ultimately have "\<exists>r. chunk_loop text chunk_size overlap s' cks = Some r" for cks
      by (rule less.hyps)
    then show ?thesis
      unfolding chunk_loop_step [OF True] s'_def e_def by blast
  qed
qed

lemma create_document_chunks_returns_small_overlap:
  assumes "0 \<le> overlap" "overlap \<le> 1" "overlap < chunk_size"
  shows "\<exists>r. create_document_chunks text chunk_size overlap = Some r"
  using chunk_loop_returns_small_overlap [OF assms, of 0 "text" "[]"]
  by (simp add: create_document_chunks_def)

text \<open>
  Claim C6 as stated fails twice. A text shorter than \<open>chunk_size\<close> is chunked again from
  \<open>chunk_size - overlap\<close> when that position is still inside it: \<open>abc\<close> with
  \<open>chunk_size = 10\<close> and \<open>overlap = 9\<close> gives three chunks. And a text of one space gives no
  chunk at all.
\<close>

theorem short_text_single_chunk_counterexample:
  "create_document_chunks ''abc'' 10 9 = Some [''abc'', ''bc'', ''c''] \<and>
   create_document_chunks '' '' 10 0 = Some []"
  by code_simp

theorem short_text_chunks_witness:
  "create_document_chunks [] 1000 200 = Some [] \<and>
   ''hello world'' \<noteq> [] \<and> (0::int) \<le> 200 \<and> int (length ''hello world'') + 200 \<le> 1000 \<and>
   create_document_chunks ''hello world'' 1000 200 = Some [''hello world'']"
  using short_text_chunks [of 1000 200 "''hello world''"]
  by (simp add: strip_def isspace_def)

theorem chunk_length_le_chunk_size_witness:
  "(0::int) < 10 \<and>
   create_document_chunks ''The quick brown fox jumps'' 10 2 =
     Some [''The quick'', ''k brown'', ''n fox'', ''x jumps''] \<and>
   int (length ''The quick'') \<le> 10 \<and> int (length ''k brown'') \<le> 10 \<and>
   int (length ''n fox'') \<le> 10 \<and> int (length ''x jumps'') \<le> 10"
proof -
  have e: "create_document_chunks ''The quick brown fox jumps'' 10 2 =
     Some [''The quick'', ''k brown'', ''n fox'', ''x jumps'']" by code_simp
  from chunk_length_le_chunk_size [OF _ e] show ?thesis using e by simp
qed

theorem chunks_nonempty_stripped_witness:
  "create_document_chunks ''alpha beta  gamma'' 8 0 = Some [''alpha'', ''beta'', ''gamma''] \<and>
   ''alpha'' \<noteq> [] \<and> strip ''alpha'' = ''alpha'' \<and> ''beta'' \<noteq> [] \<and> strip ''beta'' = ''beta'' \<and>
   ''gamma'' \<noteq> [] \<and> strip ''gamma'' = ''gamma''"
proof -
  have e: "create_document_chunks ''alpha beta  gamma'' 8 0 = Some [''alpha'', ''beta'', ''gamma'']"
    by code_simp
  from chunks_nonempty_stripped [OF e] show ?thesis using e by simp
qed

section \<open>Properties of the context optimizer\<close>

lemma total_content_length_append:
  "total_content_length (xs @ ys) = total_content_length xs + total_content_length ys"
  by (simp add: total_content_length_def)

lemma length_slice_prefix: "0 \<le> n \<Longrightarrow> length (slice xs 0 n) = min (length xs) (nat n)"
  by (simp add: slice_def py_index_def min_def)

lemma optimize_loop_budget:
  assumes "total_length = total_content_length optimized_context" and "total_length \<le> max_context_length"
  shows "total_content_length (optimize_loop max_context_length total_length optimized_context sorted_context)
           \<le> max_context_length + 3"
  using assms
proof (induction sorted_context arbitrary: total_length optimized_context)
  case Nil
  then show ?case by simp
next
  case (Cons r rs)
  show ?case
  proof (cases "total_length + int (length (content r)) \<le> max_context_length")
    case True
    have "total_content_length (optimize_loop max_context_length (total_length + int (length (content r)))
             (optimized_context @ [r]) rs) \<le> max_context_length + 3"
      using Cons.prems True
      by (intro Cons.IH) (simp_all add: total_content_length_append, simp add: total_content_length_def)
    with True show ?thesis by (simp add: Let_def)
  next
    case False
    show ?thesis
    proof (cases "max_context_length - total_length > 100")
      case True
      then have "length (slice (content r) 0 (max_context_length - total_length)) =
                 min (length (content r)) (nat (max_context_length - total_length))"
        by (intro length_slice_prefix) simp
      then have "int (length (slice (content r) 0 (max_context_length - total_length) @ ''...''))
                  \<le> max_context_length - total_length + 3"
        using True by simp
      with False True Cons.prems show ?thesis
        by (simp add: Let_def total_content_length_append) (simp add: total_content_length_def)
    next
      case F2: False
      with False Cons.prems show ?thesis by (simp add: Let_def)
    qed
  qed
qed

lemma optimize_context_budget_plus_ellipsis:
  assumes "0 \<le> max_context_length"
  shows "total_content_length (optimize_context query context max_context_length) \<le> max_context_length + 3"
proof (cases "context = []")
  case True
  with assms show ?thesis by (simp add: optimize_context_def total_content_length_def)
next
  case False
  have "total_content_length (optimize_loop max_context_length 0 []
          (sort_key (\<lambda>x. - similarity_score x) context)) \<le> max_context_length + 3"
    using assms by (intro optimize_loop_budget) (simp_all add: total_content_length_def)
  with False show ?thesis by (simp add: optimize_context_def)
qed

text \<open>
  Claim C1 says that the contents returned by optimize_context never add up to more than
  \<open>max_context_length\<close>. For the single result of 1500 characters and a budget of 1000 the
  code keeps \<open>content[:1000] + "..."\<close>: one result of 1003 characters, three over the
  budget.
\<close>

theorem optimize_context_exceeds_budget:
  "total_content_length
     (optimize_context ''q''
        [\<lparr>chunk_id = 1, document_id = 1, content = replicate 1500 (CHR ''X''),
          chunk_index = 0, similarity_score = 9 / 10\<rparr>] 1000) = 1003 \<and>
   map content
     (optimize_context ''q''
        [\<lparr>chunk_id = 1, document_id = 1, content = replicate 1500 (CHR ''X''),
          chunk_index = 0, similarity_score = 9 / 10\<rparr>] 1000) =
     [replicate 1000 (CHR ''X'') @ ''...'']"
  by (simp add: optimize_context_def total_content_length_def slice_def py_index_def)


section \<open>Properties of the fusion\<close>

lemma map_of_dict_set: "map_of (dict_set k v d) k' = (if k' = k then Some v else map_of d k')"
  by (induction d) auto

lemma score_in_snoc:
  "score_in (rs @ [r]) cid =
     (case score_in rs cid of
        Some s \<Rightarrow> Some s
      | None \<Rightarrow> if chunk_id r = cid then Some (similarity_score r) else None)"
  by (induction rs) (auto simp: score_in_def)

lemma score_in_None: "cid \<notin> chunk_id ` set rs \<Longrightarrow> score_in rs cid = None"
  by (induction rs) (auto simp: score_in_def)

lemma add_semantic_score:
  "map_option combined_score (map_of (add_semantic w d r) cid) =
     (if chunk_id r = cid then Some (similarity_score r * w)
      else map_option combined_score (map_of d cid))"
  by (auto simp: add_semantic_def map_of_dict_set)

lemma add_vector_score:
  "map_option combined_score (map_of (add_vector w d r) cid) =
     (if chunk_id r = cid
      then (case map_option combined_score (map_of d cid) of
              None \<Rightarrow> Some (similarity_score r * w)
            | Some c \<Rightarrow> Some (c + similarity_score r * w))
      else map_option combined_score (map_of d cid))"
  by (auto simp: add_vector_def map_of_dict_set split: option.splits)

lemma semantic_scores:
  assumes "distinct (map chunk_id semantic_results)"
  shows "map_option combined_score
           (map_of (foldl (add_semantic semantic_weight) [] semantic_results) cid) =
         map_option (\<lambda>s. s * semantic_weight) (score_in semantic_results cid)"
  using assms
proof (induction semantic_results rule: rev_induct)
  case Nil
  then show ?case by (simp add: score_in_def)
next
  case (snoc r rs)
  then have d: "distinct (map chunk_id rs)" and fresh: "chunk_id r \<notin> chunk_id ` set rs" by simp_all
  have step: "foldl (add_semantic semantic_weight) [] (rs @ [r]) =
              add_semantic semantic_weight (foldl (add_semantic semantic_weight) [] rs) r"
    by simp
  show ?case
  proof (cases "chunk_id r = cid")
    case True
    with fresh have "score_in rs cid = None" by (intro score_in_None) simp
    with True show ?thesis
      unfolding step add_semantic_score by (simp add: score_in_snoc)
  next
    case False
    with snoc.IH [OF d] show ?thesis
      unfolding step add_semantic_score by (simp add: score_in_snoc split: option.splits)
  qed
qed

lemma vector_scores:
  assumes "distinct (map chunk_id vector_results)"
  shows "map_option combined_score
           (map_of (foldl (add_vector vector_weight) d vector_results) cid) =
         (case score_in vector_results cid of
            None \<Rightarrow> map_option combined_score (map_of d cid)
          | Some v \<Rightarrow>
              (case map_option combined_score (map_of d cid) of
                 None \<Rightarrow> Some (v * vector_weight)
               | Some c \<Rightarrow> Some (c + v * vector_weight)))"
  using assms
proof (induction vector_results rule: rev_induct)
  case Nil
  then show ?case by (simp add: score_in_def)
next
  case (snoc r rs)
  then have dist: "distinct (map chunk_id rs)" and fresh: "chunk_id r \<notin> chunk_id ` set rs" by simp_all
  have step: "foldl (add_vector vector_weight) d (rs @ [r]) =
              add_vector vector_weight (foldl (add_vector vector_weight) d rs) r"
    by simp
  show ?case
  proof (cases "chunk_id r = cid")
    case True
    with fresh have none: "score_in rs cid = None" by (intro score_in_None) simp
    with snoc.IH [OF dist] True show ?thesis
      unfolding step add_vector_score by (simp add: score_in_snoc)
  next
    case False
    with snoc.IH [OF dist] show ?thesis
      unfolding step add_vector_score by (simp add: score_in_snoc split: option.splits)
  qed
qed

text \<open>
  Claim C3, amended: when no chunk id occurs twice within the semantic list or within the
  vector list, the fused score of a chunk id is its semantic score times the semantic
  weight if only the semantic list has it, its vector score times the vector weight if
  only the vector list has it, the sum of both products if both have it, and there is no
  entry if neither has it.
\<close>

theorem fused_score_weighted_sum:
  assumes "distinct (map chunk_id semantic_results)" and "distinct (map chunk_id vector_results)"
  shows "fused_score semantic_results vector_results semantic_weight vector_weight cid =
     (case (score_in semantic_results cid, score_in vector_results cid) of
        (None, None) \<Rightarrow> None
      | (Some s, None) \<Rightarrow> Some (s * semantic_weight)
      | (None, Some v) \<Rightarrow> Some (v * vector_weight)
      | (Some s, Some v) \<Rightarrow> Some (s * semantic_weight + v * vector_weight))"
proof -
  define d where "d = foldl (add_semantic semantic_weight) [] semantic_results"
  have s: "map_option combined_score (map_of d cid) =
           map_option (\<lambda>s. s * semantic_weight) (score_in semantic_results cid)"
    unfolding d_def using assms(1) by (rule semantic_scores)
  have "fused_score semantic_results vector_results semantic_weight vector_weight cid =
        map_option combined_score (map_of (foldl (add_vector vector_weight) d vector_results) cid)"
    by (simp add: fused_score_def combined_dict_def d_def)
  also note vector_scores [OF assms(2), of vector_weight d cid]
  finally show ?thesis unfolding s
    by (cases "score_in semantic_results cid"; cases "score_in vector_results cid") simp_all
qed

theorem fused_score_weighted_sum_witness:
  "distinct (map chunk_id [\<lparr>chunk_id = 1, document_id = 5, content = ''alpha'', chunk_index = 0, similarity_score = 1\<rparr>]) \<and>
   distinct (map chunk_id [\<lparr>chunk_id = 2, document_id = 5, content = ''beta'', chunk_index = 1, similarity_score = 9 / 10\<rparr>]) \<and>
   fused_score [\<lparr>chunk_id = 1, document_id = 5, content = ''alpha'', chunk_index = 0, similarity_score = 1\<rparr>]
     [\<lparr>chunk_id = 2, document_id = 5, content = ''beta'', chunk_index = 1, similarity_score = 9 / 10\<rparr>]
     (7 / 10) (3 / 10) 1 = Some (7 / 10) \<and>
   fused_score [\<lparr>chunk_id = 1, document_id = 5, content = ''alpha'', chunk_index = 0, similarity_score = 1\<rparr>]
     [\<lparr>chunk_id = 2, document_id = 5, content = ''beta'', chunk_index = 1, similarity_score = 9 / 10\<rparr>]
     (7 / 10) (3 / 10) 2 = Some (27 / 100)"
  using fused_score_weighted_sum
    [of "[\<lparr>chunk_id = 1, document_id = 5, content = ''alpha'', chunk_index = 0, similarity_score = 1\<rparr>]"
        "[\<lparr>chunk_id = 2, document_id = 5, content = ''beta'', chunk_index = 1, similarity_score = 9 / 10\<rparr>]"
        "7 / 10" "3 / 10" 1]
    fused_score_weighted_sum
    [of "[\<lparr>chunk_id = 1, document_id = 5, content = ''alpha'', chunk_index = 0, similarity_score = 1\<rparr>]"
        "[\<lparr>chunk_id = 2, document_id = 5, content = ''beta'', chunk_index = 1, similarity_score = 9 / 10\<rparr>]"
        "7 / 10" "3 / 10" 2]
  by (simp add: score_in_def)

text \<open>
  Claim C3 as stated, for every pair of lists, fails when a list repeats a chunk id: chunk
  1 is in the vector list only, twice with score 0.9, and its fused score under the vector
  weight 0.3 is 0.54, not 0.27, because the second occurrence is added to the entry of the
  first.
\<close>

theorem fused_score_duplicate_counterexample:
  "score_in [] 1 = None \<and>
   score_in [\<lparr>chunk_id = 1, document_id = 5, content = ''alpha'', chunk_index = 0, similarity_score = 9 / 10\<rparr>,
             \<lparr>chunk_id = 1, document_id = 5, content = ''alpha'', chunk_index = 0, similarity_score = 9 / 10\<rparr>] 1
     = Some (9 / 10) \<and>
   fused_score []
     [\<lparr>chunk_id = 1, document_id = 5, content = ''alpha'', chunk_index = 0, similarity_score = 9 / 10\<rparr>,
      \<lparr>chunk_id = 1, document_id = 5, content = ''alpha'', chunk_index = 0, similarity_score = 9 / 10\<rparr>]
     (7 / 10) (3 / 10) 1 = Some (54 / 100) \<and>
   (54 / 100 :: real) \<noteq> 9 / 10 * (3 / 10)"
  by (simp add: score_in_def fused_score_def combined_dict_def add_vector_def)

lemma combine_search_results_ranks_by_fused_score: "map chunk_id (combine_search_results
     [\<lparr>chunk_id = 1, document_id = 5, content = ''alpha'', chunk_index = 0, similarity_score = 1\<rparr>]
     [\<lparr>chunk_id = 2, document_id = 5, content = ''beta'', chunk_index = 1, similarity_score = 9 / 10\<rparr>]
     (7 / 10) (3 / 10) 10) = [1, 2]"
  by (simp add: combine_search_results_def combined_dict_def add_semantic_def add_vector_def slice_def py_index_def)

section \<open>Properties of the hybrid search endpoint\<close>

text \<open>
  The doubles of the decimal literals used below, and their sums and differences in double
  arithmetic, computed from \<open>double_round\<close>.
\<close>

lemma double_0_01: "double_round (1 / 100) = 5764607523034235 / 576460752303423488"
  by code_simp

lemma double_0_3: "double_round (3 / 10) = 5404319552844595 / 18014398509481984"
  by code_simp

lemma double_0_31: "double_round (31 / 100) = 5584463537939415 / 18014398509481984"
  by code_simp

lemma double_0_7: "double_round (7 / 10) = 3152519739159347 / 4503599627370496"
  by code_simp

lemma double_0_8: "double_round (8 / 10) = 3602879701896397 / 4503599627370496"
  by code_simp

lemma double_0_7_plus_0_3:
  "double_add (3152519739159347 / 4503599627370496) (5404319552844595 / 18014398509481984) = 1"
  by code_simp

lemma double_0_7_plus_0_31:
  "double_add (3152519739159347 / 4503599627370496) (5584463537939415 / 18014398509481984) =
     4548635623644201 / 4503599627370496"
  by code_simp

lemma double_0_8_plus_0_3:
  "double_add (3602879701896397 / 4503599627370496) (5404319552844595 / 18014398509481984) =
     2476979795053773 / 2251799813685248"
  by code_simp

lemma double_1_minus_1: "double_sub 1 1 = 0"
  by (simp add: double_sub_def double_round_def)

lemma double_1_01_minus_1:
  "double_sub (4548635623644201 / 4503599627370496) 1 = 45035996273705 / 4503599627370496"
  by code_simp

lemma double_1_1_minus_1:
  "double_sub (2476979795053773 / 2251799813685248) 1 = 225179981368525 / 2251799813685248"
  by code_simp

lemma double_1_5_minus_0_5: "double_add (3 / 2) (- (1 / 2)) = 1"
  by code_simp


lemma semantic_search_raises:
  "semantic_search ilike db query domain_id limit =
     (Inl (AttributeError ''domain''),
      log_search db query 0 ''semantic'' domain_id (Some (AttributeError ''domain'')))"
  by (simp add: semantic_search_def document_domain_loader_def)

lemma hybrid_search_raises:
  "hybrid_search ilike db query domain_id limit semantic_weight vector_weight =
     (Inl (AttributeError ''domain''),
      log_search (log_search db query 0 ''semantic'' domain_id (Some (AttributeError ''domain'')))
        query 0 ''hybrid'' domain_id (Some (AttributeError ''domain'')))"
  by (simp add: hybrid_search_def semantic_search_raises)

lemma hybrid_search_logs:
  "map log_search_type
     (vector_search_logs (snd (hybrid_search ilike db query domain_id limit semantic_weight vector_weight))) =
   map log_search_type (vector_search_logs db) @ [''semantic'', ''hybrid'']"
  by (simp add: hybrid_search_raises log_search_def)

lemma hybrid_search_endpoint_invalid_parameters:
  assumes "\<not> (1 \<le> limit \<and> limit \<le> 100 \<and> 0 \<le> semantic_weight \<and> semantic_weight \<le> 1 \<and>
              0 \<le> vector_weight \<and> vector_weight \<le> 1)"
  shows "hybrid_search_endpoint ilike db query domain_id limit semantic_weight vector_weight =
           (Inl RequestValidationError, db)"
  unfolding hybrid_search_endpoint_def using assms by (rule if_P)

text \<open>
  Claim C4, amended: for a call whose parameters are within the bounds the endpoint
  declares (limit from 1 to 100, each weight from 0 to 1), if
  \<open>abs(semantic_weight + vector_weight - 1.0) > 0.01\<close> in double arithmetic, the call is
  rejected with the HTTP 400 validation error and the store is left as it was, so no search
  ran and none was logged; otherwise the handler calls \<open>SearchService.hybrid_search\<close> and
  ends with its outcome (the response, or HTTP 500 when the service raises), after a
  semantic and a hybrid search were logged.
\<close>

theorem hybrid_search_endpoint_weights:
  assumes "1 \<le> limit" and "limit \<le> 100"
    and "0 \<le> semantic_weight" and "semantic_weight \<le> 1"
    and "0 \<le> vector_weight" and "vector_weight \<le> 1"
  shows
   "(\<bar>double_sub (double_add semantic_weight vector_weight) 1\<bar> > double_round (1 / 100) \<longrightarrow>
      hybrid_search_endpoint ilike db query domain_id limit semantic_weight vector_weight =
        (Inl (HTTPException 400 ''Semantic and vector weights must sum to 1.0''), db)) \<and>
    (\<not> \<bar>double_sub (double_add semantic_weight vector_weight) 1\<bar> > double_round (1 / 100) \<longrightarrow>
      (\<exists>outcome db'.
         hybrid_search ilike db query domain_id limit
           (of_rat semantic_weight) (of_rat vector_weight) = (outcome, db') \<and>
         hybrid_search_endpoint ilike db query domain_id limit semantic_weight vector_weight =
           ((case outcome of
               Inl e \<Rightarrow> Inl (HTTPException 500 ''Search failed'')
             | Inr response \<Rightarrow> Inr response), db') \<and>
         map log_search_type (vector_search_logs db') =
           map log_search_type (vector_search_logs db) @ [''semantic'', ''hybrid'']))"
proof (intro conjI impI)
  assume "\<bar>double_sub (double_add semantic_weight vector_weight) 1\<bar> > double_round (1 / 100)"
  with assms show "hybrid_search_endpoint ilike db query domain_id limit semantic_weight vector_weight =
        (Inl (HTTPException 400 ''Semantic and vector weights must sum to 1.0''), db)"
    by (simp add: hybrid_search_endpoint_def)
next
  assume ok: "\<not> \<bar>double_sub (double_add semantic_weight vector_weight) 1\<bar> > double_round (1 / 100)"
  obtain outcome db' where
    r: "hybrid_search ilike db query domain_id limit
          (of_rat semantic_weight) (of_rat vector_weight) = (outcome, db')"
    by (cases "hybrid_search ilike db query domain_id limit
          (of_rat semantic_weight) (of_rat vector_weight)")
  have "map log_search_type (vector_search_logs db') =
           map log_search_type (vector_search_logs db) @ [''semantic'', ''hybrid'']"
    using hybrid_search_logs [of ilike db query domain_id limit
        "of_rat semantic_weight" "of_rat vector_weight"]
    by (simp add: r)
  moreover have "hybrid_search_endpoint ilike db query domain_id limit semantic_weight vector_weight =
           ((case outcome of
               Inl e \<Rightarrow> Inl (HTTPException 500 ''Search failed'')
             | Inr response \<Rightarrow> Inr response), db')"
    using ok assms by (cases outcome) (simp_all add: hybrid_search_endpoint_def r)
  ultimately show "\<exists>outcome db'.
         hybrid_search ilike db query domain_id limit
           (of_rat semantic_weight) (of_rat vector_weight) = (outcome, db') \<and>
         hybrid_search_endpoint ilike db query domain_id limit semantic_weight vector_weight =
           ((case outcome of
               Inl e \<Rightarrow> Inl (HTTPException 500 ''Search failed'')
             | Inr response \<Rightarrow> Inr response), db') \<and>
         map log_search_type (vector_search_logs db') =
           map log_search_type (vector_search_logs db) @ [''semantic'', ''hybrid'']"
    using r by blast
qed

text \<open>
  In this code the search always raises (\<open>hybrid_search_raises\<close>), so a call that passes the
  checks on its weights ends with HTTP 500.
\<close>

lemma hybrid_search_endpoint_accepted_fails:
  assumes "1 \<le> limit" and "limit \<le> 100"
    and "0 \<le> semantic_weight" and "semantic_weight \<le> 1"
    and "0 \<le> vector_weight" and "vector_weight \<le> 1"
    and "\<not> \<bar>double_sub (double_add semantic_weight vector_weight) 1\<bar> > double_round (1 / 100)"
  shows "fst (hybrid_search_endpoint ilike db query domain_id limit semantic_weight vector_weight) =
           Inl (HTTPException 500 ''Search failed'')"
  using assms by (simp add: hybrid_search_endpoint_def hybrid_search_raises)

theorem hybrid_search_endpoint_weights_witness:
  "(1::int) \<le> 10 \<and> (10::int) \<le> 100 \<and>
   0 \<le> double_round (8 / 10) \<and> double_round (8 / 10) \<le> 1 \<and>
   0 \<le> double_round (7 / 10) \<and> double_round (7 / 10) \<le> 1 \<and>
   0 \<le> double_round (3 / 10) \<and> double_round (3 / 10) \<le> 1 \<and>
   \<bar>double_sub (double_add (double_round (8 / 10)) (double_round (3 / 10))) 1\<bar> > double_round (1 / 100) \<and>
   hybrid_search_endpoint (\<lambda>c q. c = q) example_db ''fox'' None 10
       (double_round (8 / 10)) (double_round (3 / 10)) =
     (Inl (HTTPException 400 ''Semantic and vector weights must sum to 1.0''), example_db) \<and>
   \<not> \<bar>double_sub (double_add (double_round (7 / 10)) (double_round (3 / 10))) 1\<bar> > double_round (1 / 100) \<and>
   fst (hybrid_search_endpoint (\<lambda>c q. c = q) example_db ''fox'' None 10
          (double_round (7 / 10)) (double_round (3 / 10))) =
     Inl (HTTPException 500 ''Search failed'') \<and>
   map log_search_type (vector_search_logs (snd
       (hybrid_search_endpoint (\<lambda>c q. c = q) example_db ''fox'' None 10
          (double_round (7 / 10)) (double_round (3 / 10))))) = [''semantic'', ''hybrid'']"
proof -
  have b8: "0 \<le> double_round (8 / 10)" "double_round (8 / 10) \<le> 1"
    unfolding double_0_8 by simp_all
  have b7: "0 \<le> double_round (7 / 10)" "double_round (7 / 10) \<le> 1"
    unfolding double_0_7 by simp_all
  have b3: "0 \<le> double_round (3 / 10)" "double_round (3 / 10) \<le> 1"
    unfolding double_0_3 by simp_all
  have off: "\<bar>double_sub (double_add (double_round (8 / 10)) (double_round (3 / 10))) 1\<bar> > double_round (1 / 100)"
    unfolding double_0_8 double_0_3 double_0_8_plus_0_3 double_1_1_minus_1 double_0_01 by simp
  have on: "\<not> \<bar>double_sub (double_add (double_round (7 / 10)) (double_round (3 / 10))) 1\<bar> > double_round (1 / 100)"
    unfolding double_0_7 double_0_3 double_0_7_plus_0_3 double_1_minus_1 double_0_01 by simp
  have l: "(1::int) \<le> 10" "(10::int) \<le> 100" by simp_all
  note rejected = hybrid_search_endpoint_weights [OF l b8 b3, of "\<lambda>c q. c = q" example_db "''fox''" None]
  note accepted = hybrid_search_endpoint_weights [OF l b7 b3, of "\<lambda>c q. c = q" example_db "''fox''" None]
  from rejected off have 1:
    "hybrid_search_endpoint (\<lambda>c q. c = q) example_db ''fox'' None 10
       (double_round (8 / 10)) (double_round (3 / 10)) =
     (Inl (HTTPException 400 ''Semantic and vector weights must sum to 1.0''), example_db)"
    by blast
  from accepted on obtain outcome db' where o:
    "hybrid_search (\<lambda>c q. c = q) example_db ''fox'' None 10
       (of_rat (double_round (7 / 10))) (of_rat (double_round (3 / 10))) = (outcome, db')"
    "hybrid_search_endpoint (\<lambda>c q. c = q) example_db ''fox'' None 10
       (double_round (7 / 10)) (double_round (3 / 10)) =
       ((case outcome of Inl e \<Rightarrow> Inl (HTTPException 500 ''Search failed'')
         | Inr response \<Rightarrow> Inr response), db')"
    "map log_search_type (vector_search_logs db') =
       map log_search_type (vector_search_logs example_db) @ [''semantic'', ''hybrid'']"
    by blast
  from o(1) have "outcome = Inl (AttributeError ''domain'')"
    by (simp add: hybrid_search_raises)
  with o(2,3) have 2:
    "fst (hybrid_search_endpoint (\<lambda>c q. c = q) example_db ''fox'' None 10
          (double_round (7 / 10)) (double_round (3 / 10))) =
       Inl (HTTPException 500 ''Search failed'')"
    "map log_search_type (vector_search_logs (snd
       (hybrid_search_endpoint (\<lambda>c q. c = q) example_db ''fox'' None 10
          (double_round (7 / 10)) (double_round (3 / 10))))) = [''semantic'', ''hybrid'']"
    by (simp_all add: example_db_def)
  from l b8 b7 b3 off on 1 2 show ?thesis by blast
qed

text \<open>
  Claim C4 as stated, for every call, fails in its second half. The weights 1.5 and -0.5
  sum to 1.0, in exact and in double arithmetic, yet the call does not proceed: the bounds
  of the parameters reject it before the handler runs. And the sum of the doubles 0.7 and
  0.31 differs from 1.0 by less than 0.01 in exact arithmetic, yet the call is rejected with
  HTTP 400, because the sum is rounded to a double first.
\<close>

theorem hybrid_search_endpoint_weights_counterexample:
  "\<not> \<bar>(3 / 2 :: rat) + (- (1 / 2)) - 1\<bar> > 1 / 100 \<and>
   \<not> \<bar>double_sub (double_add (3 / 2) (- (1 / 2))) 1\<bar> > double_round (1 / 100) \<and>
   hybrid_search_endpoint (\<lambda>c q. c = q) example_db ''fox'' None 10 (3 / 2) (- (1 / 2)) =
     (Inl RequestValidationError, example_db) \<and>
   \<not> \<bar>double_round (7 / 10) + double_round (31 / 100) - 1\<bar> > 1 / 100 \<and>
   hybrid_search_endpoint (\<lambda>c q. c = q) example_db ''fox'' None 10
       (double_round (7 / 10)) (double_round (31 / 100)) =
     (Inl (HTTPException 400 ''Semantic and vector weights must sum to 1.0''), example_db)"
proof -
  have 1: "\<not> \<bar>(3 / 2 :: rat) + (- (1 / 2)) - 1\<bar> > 1 / 100" by simp
  have 2: "\<not> \<bar>double_sub (double_add (3 / 2) (- (1 / 2))) 1\<bar> > double_round (1 / 100)"
    unfolding double_1_5_minus_0_5 double_1_minus_1 double_0_01 by simp
  have 3: "hybrid_search_endpoint (\<lambda>c q. c = q) example_db ''fox'' None 10 (3 / 2) (- (1 / 2)) =
     (Inl RequestValidationError, example_db)"
    by (rule hybrid_search_endpoint_invalid_parameters) simp
  have 4: "\<not> \<bar>double_round (7 / 10) + double_round (31 / 100) - 1\<bar> > 1 / 100"
    unfolding double_0_7 double_0_31 by simp
  have off: "\<bar>double_sub (double_add (double_round (7 / 10)) (double_round (31 / 100))) 1\<bar> > double_round (1 / 100)"
    unfolding double_0_7 double_0_31 double_0_7_plus_0_31 double_1_01_minus_1 double_0_01 by simp
  have b: "0 \<le> double_round (7 / 10)" "double_round (7 / 10) \<le> 1"
          "0 \<le> double_round (31 / 100)" "double_round (31 / 100) \<le> 1"
    unfolding double_0_7 double_0_31 by simp_all
  have 5: "hybrid_search_endpoint (\<lambda>c q. c = q) example_db ''fox'' None 10
       (double_round (7 / 10)) (double_round (31 / 100)) =
     (Inl (HTTPException 400 ''Semantic and vector weights must sum to 1.0''), example_db)"
    using off b by (simp add: hybrid_search_endpoint_def)
  from 1 2 3 4 5 show ?thesis by blast
qed

section \<open>Properties of the ingestion tasks\<close>

lemma extraction_fails_iff:
  "(extract_text_from_document fs document = None \<or> extract_text_from_document fs document = Some [])
   \<longleftrightarrow>
   (fs (file_path document) = None \<or>
    lower (file_type document) \<notin> {''txt'', ''pdf'', ''docx'', ''doc''} \<or>
    (lower (file_type document) = ''txt'' \<and>
       (fs (file_path document) = Some Unreadable \<or> fs (file_path document) = Some (Readable []))))"
  by (auto simp: extract_text_from_document_def extract_text_from_txt_def
      extract_text_from_pdf_def extract_text_from_docx_def Let_def
      split: option.splits raw_file.splits)

lemma get_after_update:
  "get_document db doc_id = Some document \<Longrightarrow>
   get_document (update_document_status db doc_id s) doc_id = Some (document\<lparr>status := s\<rparr>)"
  by (simp add: update_document_status_def get_document_def)

lemma chunks_after_update:
  "document_chunks (update_document_status db doc_id s) = document_chunks db"
  by (simp add: update_document_status_def split: option.splits)

text \<open>
  Claim C5: when the text extraction of a document returns nothing or the empty text
  (no file, unsupported type, unreadable or empty text file, see \<open>extraction_fails_iff\<close>),
  process_document ends without an exception, leaves the document in status \<open>failed\<close> and
  the chunk table as it was.
\<close>

theorem failed_extraction_writes_no_chunks:
  assumes "get_document db doc_id = Some document"
    and "extract_text_from_document fs document = None \<or>
         extract_text_from_document fs document = Some []"
  shows "\<exists>db'. process_document st fs db doc_id = Some (None, db') \<and>
           map_option status (get_document db' doc_id) = Some ''failed'' \<and>
           document_chunks db' = document_chunks db"
proof -
  define db1 where "db1 = update_document_status db doc_id ''processing''"
  have g1: "get_document db1 doc_id = Some (document\<lparr>status := ''processing''\<rparr>)"
    unfolding db1_def using assms(1) by (rule get_after_update)
  have p: "process_document st fs db doc_id = Some (None, update_document_status db1 doc_id ''failed'')"
    using assms by (auto simp: process_document_def db1_def Let_def)
  have "map_option status (get_document (update_document_status db1 doc_id ''failed'') doc_id) = Some ''failed''"
    using get_after_update [OF g1, of "''failed''"] by simp
  moreover have "document_chunks (update_document_status db1 doc_id ''failed'') = document_chunks db"
    by (simp add: chunks_after_update db1_def)
  ultimately show ?thesis using p by blast
qed

theorem failed_extraction_writes_no_chunks_witness:
  "get_document example_store 8 = Some (example_document ''/g.png'' ''PNG'') \<and>
   extract_text_from_document example_storage (example_document ''/g.png'' ''PNG'') = None \<and>
   map_option (\<lambda>r. (fst r, map_option status (get_document (snd r) 8), document_chunks (snd r)))
     (process_document default_settings example_storage example_store 8) =
     Some (None, Some ''failed'', [])"
proof -
  have g: "get_document example_store 8 = Some (example_document ''/g.png'' ''PNG'')"
    by (simp add: get_document_def example_store_def)
  have e: "extract_text_from_document example_storage (example_document ''/g.png'' ''PNG'') = None"
    by code_simp
  from failed_extraction_writes_no_chunks [OF g, of example_storage default_settings] e
  obtain db' where "process_document default_settings example_storage example_store 8 = Some (None, db')"
    "map_option status (get_document db' 8) = Some ''failed''"
    "document_chunks db' = document_chunks example_store" by blast
  then show ?thesis using g e by (simp add: example_store_def)
qed

text \<open>
  process_document never leaves the chunking loop running and never writes a chunk: the
  read of \<open>document.chunk_size\<close> raises before create_document_chunks is called.
\<close>

lemma process_document_chunks_unchanged:
  "\<exists>e db'. process_document st fs db doc_id = Some (e, db') \<and>
            document_chunks db' = document_chunks db"
  by (auto simp: process_document_def document_chunk_size_def Let_def chunks_after_update
      split: option.splits)

lemma process_document_raises:
  assumes "get_document db doc_id = Some document"
    and "extract_text_from_document fs document = Some text_content" and "text_content \<noteq> []"
  shows "\<exists>db'. process_document st fs db doc_id = Some (Some (AttributeError ''chunk_size''), db') \<and>
           map_option status (get_document db' doc_id) = Some ''failed'' \<and>
           document_chunks db' = document_chunks db"
proof -
  define db1 where "db1 = update_document_status db doc_id ''processing''"
  have g1: "get_document db1 doc_id = Some (document\<lparr>status := ''processing''\<rparr>)"
    unfolding db1_def using assms(1) by (rule get_after_update)
  have p: "process_document st fs db doc_id =
      Some (Some (AttributeError ''chunk_size''), update_document_status db1 doc_id ''failed'')"
    using assms by (simp add: process_document_def document_chunk_size_def db1_def Let_def)
  have "map_option status (get_document (update_document_status db1 doc_id ''failed'') doc_id) = Some ''failed''"
    using get_after_update [OF g1, of "''failed''"] by simp
  moreover have "document_chunks (update_document_status db1 doc_id ''failed'') = document_chunks db"
    by (simp add: chunks_after_update db1_def)
  ultimately show ?thesis using p by blast
qed

lemma chunk_document_keeps_existing:
  "get_document_chunks db doc_id \<noteq> [] \<Longrightarrow> chunk_document st fs db doc_id chunk_size overlap = Some db"
  by (simp add: chunk_document_def Let_def split: option.splits)

lemma save_chunks_documents: "documents (save_chunks metadata db doc_id i chunks) = documents db"
  by (induction chunks arbitrary: db i) (simp_all add: create_document_chunk_def)

lemma save_chunks_indices:
  "map dc_chunk_index
     (filter (\<lambda>c. dc_document_id c = doc_id) (document_chunks (save_chunks metadata db doc_id i chunks))) =
   map dc_chunk_index (filter (\<lambda>c. dc_document_id c = doc_id) (document_chunks db)) @
   map (\<lambda>k. i + int k) [0..<length chunks]"
proof (induction chunks arbitrary: db i)
  case Nil
  then show ?case by simp
next
  case (Cons t ts)
  have "map (\<lambda>k. i + int k) [0..<Suc (length ts)] = i # map (\<lambda>k. i + 1 + int k) [0..<length ts]"
    by (simp add: map_upt_Suc add.assoc del: upt_Suc)
  then show ?case
    using Cons.IH [of "create_document_chunk db doc_id i t (metadata t)" "i + 1"]
    by (simp add: create_document_chunk_def del: upt_Suc)
qed

lemma distinct_indices_sorted:
  "distinct (map dc_chunk_index (get_document_chunks db doc_id)) \<longleftrightarrow>
   distinct (map dc_chunk_index (filter (\<lambda>c. dc_document_id c = doc_id) (document_chunks db)))"
  by (simp add: get_document_chunks_def distinct_map)

lemma no_chunks_iff:
  "get_document_chunks db doc_id = [] \<longleftrightarrow>
   filter (\<lambda>c. dc_document_id c = doc_id) (document_chunks db) = []"
proof -
  have "length (get_document_chunks db doc_id) =
        length (filter (\<lambda>c. dc_document_id c = doc_id) (document_chunks db))"
    by (simp add: get_document_chunks_def)
  then show ?thesis by (metis length_0_conv)
qed

lemma chunk_document_once:
  assumes "distinct (map dc_chunk_index (get_document_chunks db doc_id))"
    and "chunk_document st fs db doc_id chunk_size overlap = Some db1"
  shows "(db1 = db \<or> get_document_chunks db1 doc_id \<noteq> []) \<and>
         distinct (map dc_chunk_index (get_document_chunks db1 doc_id))"
proof (cases "\<exists>document text_content chunks.
    get_document db doc_id = Some document \<and> get_document_chunks db doc_id = [] \<and>
    extract_text_from_document fs document = Some text_content \<and> text_content \<noteq> [] \<and>
    create_document_chunks text_content (py_or chunk_size (CHUNK_SIZE st))
      (py_or overlap (CHUNK_OVERLAP st)) = Some chunks")
  case False
  with assms(2) have "db1 = db"
    by (auto simp: chunk_document_def Let_def split: option.splits if_splits)
  with assms(1) show ?thesis by simp
next
  case True
  then obtain document text_content chunks where w:
    "get_document db doc_id = Some document" "get_document_chunks db doc_id = []"
    "extract_text_from_document fs document = Some text_content" "text_content \<noteq> []"
    "create_document_chunks text_content (py_or chunk_size (CHUNK_SIZE st))
      (py_or overlap (CHUNK_OVERLAP st)) = Some chunks" by blast
  define metadata where "metadata = (\<lambda>chunk_text :: string.
    [(''chunk_size'', int (length chunk_text)), (''overlap'', py_or overlap (CHUNK_OVERLAP st))])"
  from w assms(2) have db1: "db1 = save_chunks metadata db doc_id 0 chunks"
    by (simp add: chunk_document_def Let_def metadata_def)
  from w(2) have none: "filter (\<lambda>c. dc_document_id c = doc_id) (document_chunks db) = []"
    by (simp add: no_chunks_iff)
  have idx: "map dc_chunk_index (filter (\<lambda>c. dc_document_id c = doc_id) (document_chunks db1)) =
             map (\<lambda>k. int k) [0..<length chunks]"
    unfolding db1 save_chunks_indices none by simp
  have d: "distinct (map dc_chunk_index (get_document_chunks db1 doc_id))"
    unfolding distinct_indices_sorted idx by (simp add: distinct_map inj_on_def)
  show ?thesis
  proof (cases "chunks = []")
    case True
    then have "db1 = db" by (simp add: db1)
    with d show ?thesis by simp
  next
    case False
    then have "filter (\<lambda>c. dc_document_id c = doc_id) (document_chunks db1) \<noteq> []"
      using idx by (metis length_greater_0_conv length_map length_upt diff_zero list.size(3) less_irrefl)
    then have "get_document_chunks db1 doc_id \<noteq> []" by (simp add: no_chunks_iff)
    with d show ?thesis by simp
  qed
qed

text \<open>
  Claim C8: when an ingestion attempt for a document has returned, a second attempt by the
  same task returns too and leaves the chunk table exactly as the first left it, and the
  chunk indices of the document, distinct before the first attempt (as for a document with
  no chunks), are distinct after the second. process_document never writes a chunk, and
  chunk_document returns early when the document has chunks.
\<close>

theorem reingestion_keeps_chunks:
  assumes "distinct (map dc_chunk_index (get_document_chunks db doc_id))"
    and "run_task st fs doc_id task db = Some db1"
  shows "\<exists>db2. run_task st fs doc_id task db1 = Some db2 \<and>
           document_chunks db2 = document_chunks db1 \<and>
           distinct (map dc_chunk_index (get_document_chunks db2 doc_id))"
proof (cases task)
  case ProcessDocument
  from process_document_chunks_unchanged [of st fs db doc_id] assms(2) ProcessDocument
  have c1: "document_chunks db1 = document_chunks db" by auto
  from process_document_chunks_unchanged [of st fs db1 doc_id]
  obtain e db2 where r: "process_document st fs db1 doc_id = Some (e, db2)"
    "document_chunks db2 = document_chunks db1" by blast
  have "get_document_chunks db2 doc_id = get_document_chunks db doc_id"
    by (simp add: get_document_chunks_def r(2) c1)
  with assms(1) r ProcessDocument show ?thesis by simp
next
  case (ChunkDocument chunk_size overlap)
  with assms(2) have first: "chunk_document st fs db doc_id chunk_size overlap = Some db1" by simp
  from chunk_document_once [OF assms(1) first]
  have same: "db1 = db \<or> get_document_chunks db1 doc_id \<noteq> []"
    and d: "distinct (map dc_chunk_index (get_document_chunks db1 doc_id))" by simp_all
  have "chunk_document st fs db1 doc_id chunk_size overlap = Some db1"
    using same first chunk_document_keeps_existing [of db1 doc_id st fs chunk_size overlap] by auto
  with d ChunkDocument show ?thesis by simp
qed

theorem reingestion_keeps_chunks_witness:
  "distinct (map dc_chunk_index (get_document_chunks example_store 7)) \<and>
   map_option (map (\<lambda>c. (dc_document_id c, dc_chunk_index c, dc_content c)) \<circ> document_chunks)
     (run_task default_settings example_storage 7 (ChunkDocument None None) example_store) =
     Some [(7, 0, ''hello world'')] \<and>
   map_option (map (\<lambda>c. (dc_document_id c, dc_chunk_index c, dc_content c)) \<circ> document_chunks)
     (Option.bind (run_task default_settings example_storage 7 (ChunkDocument None None) example_store)
        (run_task default_settings example_storage 7 (ChunkDocument None None))) =
     Some [(7, 0, ''hello world'')]"
proof -
  have d: "distinct (map dc_chunk_index (get_document_chunks example_store 7))"
    by (simp add: get_document_chunks_def example_store_def)
  have first: "map_option (map (\<lambda>c. (dc_document_id c, dc_chunk_index c, dc_content c)) \<circ> document_chunks)
     (run_task default_settings example_storage 7 (ChunkDocument None None) example_store) =
     Some [(7, 0, ''hello world'')]"
    by code_simp
  then obtain db1 where db1:
    "run_task default_settings example_storage 7 (ChunkDocument None None) example_store = Some db1"
    by auto
  from reingestion_keeps_chunks [OF d db1] obtain db2 where
    "run_task default_settings example_storage 7 (ChunkDocument None None) db1 = Some db2"
    "document_chunks db2 = document_chunks db1" by blast
  with first db1 d show ?thesis by simp
qed

lemma run_task_keeps_indices_distinct:
  assumes "distinct (map dc_chunk_index (get_document_chunks db doc_id))"
    and "run_task st fs doc_id task db = Some db1"
  shows "distinct (map dc_chunk_index (get_document_chunks db1 doc_id))"
proof (cases task)
  case ProcessDocument
  from process_document_chunks_unchanged [of st fs db doc_id] assms(2) ProcessDocument
  have "document_chunks db1 = document_chunks db" by auto
  then have "get_document_chunks db1 doc_id = get_document_chunks db doc_id"
    by (simp add: get_document_chunks_def)
  with assms(1) show ?thesis by simp
next
  case (ChunkDocument chunk_size overlap)
  with assms(2) have "chunk_document st fs db doc_id chunk_size overlap = Some db1" by simp
  from chunk_document_once [OF assms(1) this] show ?thesis by simp
qed

lemma process_document_twice_writes_nothing:
  "map_option (\<lambda>db'. (map_option status (get_document db' 7), document_chunks db'))
     (Option.bind (run_task default_settings example_storage 7 ProcessDocument example_store)
        (run_task default_settings example_storage 7 ProcessDocument)) =
   Some (Some ''failed'', [])"
  by code_simp

lemma process_document_unreadable_text:
  "map_option (\<lambda>r. (fst r, map_option status (get_document (snd r) 9), document_chunks (snd r)))
     (process_document default_settings example_storage example_store 9) =
   Some (None, Some ''failed'', [])"
  by code_simp

section \<open>Properties of the placeholder embedding\<close>

lemma assign_in_range:
  assumes "\<forall>p\<in>set ps. fst p < length e"
  shows "\<exists>v. assign ps e = Some v \<and> length v = length e"
  using assms
proof (induction ps arbitrary: e)
  case Nil
  then show ?case by simp
next
  case (Cons p ps)
  obtain i c where p: "p = (i, c)" by (cases p)
  with Cons.prems have i: "i < length e" by simp
  define e' where "e' = e[i := (real_of_int (int (of_char c) - int (of_char (CHR ''a'')))) / 26]"
  have "\<forall>q\<in>set ps. fst q < length e'" using Cons.prems by (simp add: e'_def)
  from Cons.IH [OF this] obtain v where "assign ps e' = Some v" "length v = length e'" by blast
  with i show ?case by (simp add: p e'_def)
qed

lemma hash_prefix_short:
  assumes "0 \<le> d"
  shows "length (slice h 0 (min (int (length h)) d)) \<le> nat d"
proof -
  have "length (slice h 0 (min (int (length h)) d)) \<le> py_index (length h) (min (int (length h)) d)"
    by (simp add: slice_def py_index_def)
  also have "\<dots> \<le> nat d" using assms by (auto simp: py_index_def min_def nat_le_iff)
  finally show ?thesis .
qed

lemma create_embedding_value:
  assumes "0 \<le> VECTOR_DIMENSION st" and "text \<noteq> []"
  shows "\<exists>v. fst (create_embedding md5_hexdigest st logger text) = Some v \<and>
             length v = nat (VECTOR_DIMENSION st) \<and>
             assign (enumerate 0 (slice (md5_hexdigest text) 0
                      (min (int (length (md5_hexdigest text))) (VECTOR_DIMENSION st))))
                    (replicate (nat (VECTOR_DIMENSION st)) 0) = Some v"
proof -
  define pre where "pre = slice (md5_hexdigest text) 0
                      (min (int (length (md5_hexdigest text))) (VECTOR_DIMENSION st))"
  have "length pre \<le> nat (VECTOR_DIMENSION st)"
    unfolding pre_def using assms(1) by (rule hash_prefix_short)
  then have "\<forall>p\<in>set (enumerate 0 pre). fst p < length (replicate (nat (VECTOR_DIMENSION st)) (0::real))"
    by (auto simp: in_set_enumerate_eq)
  from assign_in_range [OF this] obtain v where
    v: "assign (enumerate 0 pre) (replicate (nat (VECTOR_DIMENSION st)) 0) = Some v"
       "length v = nat (VECTOR_DIMENSION st)" by auto
  then have "fst (create_embedding md5_hexdigest st logger text) = Some v"
    using assms(2) by (simp add: create_embedding_def Let_def pre_def)
  with v show ?thesis unfolding pre_def by blast
qed

text \<open>
  Claim C10: for a configured dimension that is not negative, the value create_embedding
  returns does not depend on the state in which it is called (so a second call returns what
  the first did), it is \<open>None\<close> exactly for the empty text, and otherwise a vector of
  \<open>VECTOR_DIMENSION\<close> entries.
\<close>

theorem create_embedding_deterministic:
  assumes "0 \<le> VECTOR_DIMENSION st"
  shows "fst (create_embedding md5_hexdigest st logger' text) =
           fst (create_embedding md5_hexdigest st logger text) \<and>
         (fst (create_embedding md5_hexdigest st logger text) = None \<longleftrightarrow> text = []) \<and>
         (\<forall>v. fst (create_embedding md5_hexdigest st logger text) = Some v \<longrightarrow>
              length v = nat (VECTOR_DIMENSION st))"
proof (cases "text = []")
  case True
  then show ?thesis by (simp add: create_embedding_def)
next
  case False
  from create_embedding_value [OF assms False, of md5_hexdigest logger]
       create_embedding_value [OF assms False, of md5_hexdigest logger']
  show ?thesis using False by auto
qed

theorem create_embedding_deterministic_witness:
  "0 \<le> VECTOR_DIMENSION default_settings \<and>
   fst (create_embedding (\<lambda>t. ''5d41402abc4b2a76b9719d911017c592'') default_settings
          (snd (create_embedding (\<lambda>t. ''5d41402abc4b2a76b9719d911017c592'') default_settings [] ''hello''))
          ''hello'') =
     fst (create_embedding (\<lambda>t. ''5d41402abc4b2a76b9719d911017c592'') default_settings [] ''hello'') \<and>
   fst (create_embedding (\<lambda>t. ''5d41402abc4b2a76b9719d911017c592'') default_settings [] ''hello'') \<noteq> None \<and>
   fst (create_embedding (\<lambda>t. ''5d41402abc4b2a76b9719d911017c592'') default_settings [] []) = None \<and>
   map_option length
     (fst (create_embedding (\<lambda>t. ''5d41402abc4b2a76b9719d911017c592'') default_settings [] ''hello'')) =
     Some 1536"
proof -
  define h where "h = (\<lambda>t::string. ''5d41402abc4b2a76b9719d911017c592'')"
  have d: "0 \<le> VECTOR_DIMENSION default_settings" by (simp add: default_settings_def)
  have n: "nat (VECTOR_DIMENSION default_settings) = 1536" by (simp add: default_settings_def)
  note hello = create_embedding_deterministic
    [of default_settings h "snd (create_embedding h default_settings [] ''hello'')" "''hello''" "[]", OF d]
  note empty = create_embedding_deterministic [of default_settings h "[]" "[]" "[]", OF d]
  from hello have ne: "fst (create_embedding h default_settings [] ''hello'') \<noteq> None"
    by simp
  then obtain v where v: "fst (create_embedding h default_settings [] ''hello'') = Some v"
    by auto
  with hello n have "length v = 1536" by simp
  with v d ne hello empty show ?thesis unfolding h_def by simp
qed

end
